theory Spec2Isabelle
  imports Complex_Main
begin

section \<open>Data model of \<open>manual_minkaloha.py\<close>\<close>

text \<open>
  The controller class \<open>AlohaMocapControl\<close> keeps the Cartesian targets of both
  end effectors, the gripper openings and a dirty flag; two mouse callbacks mutate
  them, and \<open>run\<close> reads them in the control loop.

  Python floats are idealised as \<^typ>\<open>real\<close>: additions are exact and comparisons
  are those of the reals. A numpy array of floats is a \<^typ>\<open>real list\<close>, read with
  \<open>!\<close> and written with \<open>xs[i := v]\<close>; the arrays of the physics state, whose
  sizes come from the scene, are functions from the index.
\<close>

type_synonym vec = "real list"

text \<open>\<open>mink.SO3\<close>: a rotation as a unit quaternion (w, x, y, z).\<close>

datatype so3 = SO3 real real real real

definition SO3_identity :: so3 where
  "SO3_identity = SO3 1 0 0 0"

text \<open>\<open>mink.SE3\<close>: a rigid transform, built from a rotation and a translation.\<close>

datatype se3 = SE3 so3 vec

definition from_rotation_and_translation :: "so3 \<Rightarrow> vec \<Rightarrow> se3" where
  "from_rotation_and_translation r t = SE3 r t"

text \<open>\<open>pynput.mouse.Button\<close>.\<close>

datatype button = Button_unknown | Button_left | Button_middle | Button_right

text \<open>
  What the program does to the outside, in order: lines printed, calls into the
  solver, the physics engine, the viewer, the rate limiter and the mouse listener.
\<close>

datatype event =
    Print_target_x real
  | Print_target_z real
  | Print_grippers real real
  | Call_solve_ik
  | Set_target_l se3
  | Set_target_r se3
  | Mj_step
  | Viewer_sync
  | Rate_sleep
  | Listener_stop

text \<open>The arrays of \<open>MjData\<close> (and \<open>site_pos\<close> of \<open>MjModel\<close>) that the program writes.\<close>

record mjdata =
  qpos :: "nat \<Rightarrow> real"
  qvel :: "nat \<Rightarrow> real"
  ctrl :: "nat \<Rightarrow> real"
  site_xpos :: "nat \<Rightarrow> vec"
  site_xmat :: "nat \<Rightarrow> vec"
  site_pos :: "nat \<Rightarrow> vec"

text \<open>The attributes of \<open>self\<close>.\<close>

record controller =
  data :: mjdata
  target_l :: vec
  target_r :: vec
  rot_l :: so3
  rot_r :: so3
  targets_updated :: bool
  x_min :: real
  x_max :: real
  y_min :: real
  y_max :: real
  z_min :: real
  z_max :: real
  delta :: real
  listener_running :: bool
  left_gripper_actuator_id :: nat
  right_gripper_actuator_id :: nat
  left_gripper_pos :: real
  right_gripper_pos :: real
  target_site_id_l :: nat
  target_site_id_r :: nat
  trace :: "event list"

text \<open>
  \<open>__init__\<close>, after the environment is built and reset: the physics state \<open>d\<close> and
  the two gripper actuator ids come from the scene. The mouse listener is created and
  started here. The two site ids are assigned later, by \<open>add_target_sites\<close>.
\<close>

definition init :: "mjdata \<Rightarrow> nat \<Rightarrow> nat \<Rightarrow> controller" where
  "init d lid rid =
     \<lparr> data = d,
       target_l = [- 0.25, 0.0, 1.1],
       target_r = [0.25, 0.0, 1.1],
       rot_l = SO3_identity,
       rot_r = SO3_identity,
       targets_updated = False,
       x_min = - 0.4, x_max = 0.4,
       y_min = - 0.4, y_max = 0.4,
       z_min = 0.8, z_max = 1.4,
       delta = 0.01,
       listener_running = True,
       left_gripper_actuator_id = lid,
       right_gripper_actuator_id = rid,
       left_gripper_pos = 0.02,
       right_gripper_pos = 0.02,
       target_site_id_l = 0,
       target_site_id_r = 0,
       trace = [] \<rparr>"

text \<open>\<open>np.clip(a, a_min, a_max)\<close> is \<open>minimum(a_max, maximum(a, a_min))\<close>.\<close>

definition clip :: "real \<Rightarrow> real \<Rightarrow> real \<Rightarrow> real" where
  "clip a a_min a_max = min a_max (max a a_min)"

section \<open>The mouse callbacks\<close>

definition on_scroll :: "controller \<Rightarrow> int \<Rightarrow> int \<Rightarrow> int \<Rightarrow> int \<Rightarrow> controller" where
  "on_scroll s0 x y dx dy =
     (let s1 = (if dx > 0 then
                  s0\<lparr> target_l := (target_l s0)[0 := target_l s0 ! 0 + delta s0],
                      left_gripper_pos := left_gripper_pos s0 + delta s0,
                      right_gripper_pos := right_gripper_pos s0 + delta s0 \<rparr>
                else if dx < 0 then
                  s0\<lparr> target_l := (target_l s0)[0 := target_l s0 ! 0 - delta s0],
                      left_gripper_pos := left_gripper_pos s0 - delta s0,
                      right_gripper_pos := right_gripper_pos s0 - delta s0 \<rparr>
                else s0);
          s2 = (if dy < 0 then
                  s1\<lparr> target_l := (target_l s1)[1 := target_l s1 ! 1 + delta s1] \<rparr>
                else if dy > 0 then
                  s1\<lparr> target_l := (target_l s1)[1 := target_l s1 ! 1 - delta s1] \<rparr>
                else s1);
          s3 = s2\<lparr> target_l := (target_l s2)[0 := clip (target_l s2 ! 0) (x_min s2) (x_max s2)] \<rparr>;
          s4 = s3\<lparr> target_l := (target_l s3)[1 := clip (target_l s3 ! 1) (y_min s3) (y_max s3)] \<rparr>;
          s5 = s4\<lparr> left_gripper_pos := clip (left_gripper_pos s4) 0.002 0.037 \<rparr>;
          s6 = s5\<lparr> right_gripper_pos := clip (right_gripper_pos s5) 0.002 0.037 \<rparr>;
          s7 = s6\<lparr> targets_updated := True \<rparr>
      in s7\<lparr> trace := trace s7 @ [Print_target_x (target_l s7 ! 0)] \<rparr>)"

definition on_click :: "controller \<Rightarrow> int \<Rightarrow> int \<Rightarrow> button \<Rightarrow> bool \<Rightarrow> controller" where
  "on_click s0 x y b pressed =
     (if pressed then
        (let s1 = (if b = Button_left then
                     s0\<lparr> target_l := (target_l s0)[2 := target_l s0 ! 2 + delta s0] \<rparr>
                   else if b = Button_right then
                     s0\<lparr> target_l := (target_l s0)[2 := target_l s0 ! 2 - delta s0] \<rparr>
                   else s0);
             s2 = s1\<lparr> target_l := (target_l s1)[2 := clip (target_l s1 ! 2) (z_min s1) (z_max s1)] \<rparr>;
             s3 = s2\<lparr> targets_updated := True \<rparr>
         in s3\<lparr> trace := trace s3 @ [Print_target_z (target_l s3 ! 2)] \<rparr>)
      else s0)"

text \<open>
  An operator-input event is one call of a callback by the listener; a session's
  input is a finite sequence of them, applied in order to the state \<open>__init__\<close> left.
\<close>

datatype input_event = Scroll int int int int | Click int int button bool

fun handle_event :: "controller \<Rightarrow> input_event \<Rightarrow> controller" where
  "handle_event s (Scroll x y dx dy) = on_scroll s x y dx dy"
| "handle_event s (Click x y b pressed) = on_click s x y b pressed"

definition after_events :: "controller \<Rightarrow> input_event list \<Rightarrow> controller" where
  "after_events s es = foldl handle_event s es"

section \<open>The control loop of \<open>run\<close>\<close>

text \<open>What a call can raise: a fault of the IK solve, or a numpy shape mismatch.\<close>

datatype exn = Solver_infeasible | Numerical_fault | Shape_mismatch

text \<open>
  Modelled from the spec: class \<open>ReducedConfiguration\<close> (module
  \<open>reduced_configuration\<close>, imported by the source and absent from it). It owns the
  position vector \<open>q\<close> and the velocity vector \<open>dq\<close> of one arm's joints, read from
  the global state at the given indices when it is built; \<open>integrate_inplace\<close>
  advances \<open>q\<close> by \<open>velocity * dt\<close> (the six joints are revolute) and sets \<open>dq\<close> to
  the velocity it was given; a velocity of the wrong length is fatal.
\<close>

record reduced_configuration =
  q :: vec
  dq :: vec

definition ReducedConfiguration :: "mjdata \<Rightarrow> nat list \<Rightarrow> nat list \<Rightarrow> reduced_configuration" where
  "ReducedConfiguration d qpos_indices qvel_indices =
     \<lparr> q = map (qpos d) qpos_indices, dq = map (qvel d) qvel_indices \<rparr>"

definition integrate_inplace :: "reduced_configuration \<Rightarrow> vec \<Rightarrow> real \<Rightarrow> exn + reduced_configuration" where
  "integrate_inplace c velocity dt =
     (if length velocity = length (q c)
      then Inr \<lparr> q = map2 (\<lambda>a v. a + v * dt) (q c) velocity, dq = velocity \<rparr>
      else Inl Shape_mismatch)"

text \<open>The joints, their velocity limits and the limits handed to every solve.\<close>

definition JOINT_NAMES :: "string list" where
  "JOINT_NAMES = [''waist'', ''shoulder'', ''elbow'', ''forearm_roll'', ''wrist_angle'', ''wrist_rotate'']"

definition VELOCITY_LIMITS :: "(string \<times> real) list" where
  "VELOCITY_LIMITS = map (\<lambda>k. (k, pi)) JOINT_NAMES"

datatype limit =
    VelocityLimit "(string \<times> real) list"
  | CollisionAvoidanceLimit "(nat list \<times> nat list) list" real real

text \<open>
  The loop over \<open>_JOINT_NAMES\<close> at the head of \<open>run\<close>. Every name it looks up in
  \<open>_VELOCITY_LIMITS\<close> is a key of that dictionary, which is built from the same list.
\<close>

definition left_joint_names :: "string list" where
  "left_joint_names = map (\<lambda>n. ''aloha_scene/left_'' @ n) JOINT_NAMES"

definition right_joint_names :: "string list" where
  "right_joint_names = map (\<lambda>n. ''aloha_scene/right_'' @ n) JOINT_NAMES"

definition velocity_limits :: "(string \<times> real) list" where
  "velocity_limits =
     concat (map (\<lambda>(n, v). [(''aloha_scene/left_'' @ n, v), (''aloha_scene/right_'' @ n, v)])
       VELOCITY_LIMITS)"

definition limits :: "limit list" where
  "limits = [VelocityLimit velocity_limits, CollisionAvoidanceLimit [] 0.1 0.1]"

definition solver :: string where
  "solver = ''osqp''"

definition max_iters :: nat where
  "max_iters = 20"

text \<open>\<open>RateLimiter(frequency=200.0).dt\<close>.\<close>

definition rate_dt :: real where
  "rate_dt = 1 / 200"

text \<open>
  The collaborators \<open>run\<close> calls and the source does not define, as parameters:
  \<open>mink.solve_ik\<close> (given the configuration and the physics state it refers to, the
  tasks' targets, \<open>dt\<close>, the solver's name, the limits and the damping; it returns the
  joint velocities or raises), \<open>mujoco.mj_step\<close>, \<open>mujoco.mj_forward\<close>, and
  \<open>viewer.is_running()\<close> as the answer to the k-th poll.
\<close>

record externals =
  solve_ik :: "reduced_configuration \<Rightarrow> mjdata \<Rightarrow> se3 list \<Rightarrow> real \<Rightarrow> string \<Rightarrow> limit list \<Rightarrow> real \<Rightarrow> exn + vec"
  mj_step :: "mjdata \<Rightarrow> mjdata"
  mj_forward :: "mjdata \<Rightarrow> mjdata"
  is_running :: "nat \<Rightarrow> bool"

text \<open>The index arrays \<open>run\<close> reads from the model for one arm.\<close>

record arm =
  actuator_ids :: "nat list"
  relevant_qpos_indices :: "nat list"
  relevant_qvel_indices :: "nat list"

text \<open>The controller together with the local variables of \<open>run\<close> that the loop changes.\<close>

record run_state =
  self :: controller
  left_configuration :: reduced_configuration
  right_configuration :: reduced_configuration
  l_target_pose :: se3
  l_ee_task :: se3
  r_ee_task :: se3

text \<open>
  A computation that may raise returns \<open>Inl\<close> with the exception and the state at the
  raise (what was written before the raise stays written), or \<open>Inr\<close> with the state.
\<close>

type_synonym outcome = "(exn \<times> run_state) + run_state"

text \<open>
  \<open>arr[indices] = values\<close> for numpy arrays: equal lengths assign elementwise (the
  last write to an index wins), a single value is broadcast, anything else raises.
\<close>

definition set_items :: "(nat \<Rightarrow> real) \<Rightarrow> nat list \<Rightarrow> vec \<Rightarrow> exn + (nat \<Rightarrow> real)" where
  "set_items a indices vals =
     (if length vals = length indices
      then Inr (foldl (\<lambda>a (i, v). a(i := v)) a (zip indices vals))
      else if length vals = 1
      then Inr (foldl (\<lambda>a i. a(i := vals ! 0)) a indices)
      else Inl Shape_mismatch)"

definition control_gripper :: "controller \<Rightarrow> real \<Rightarrow> real \<Rightarrow> controller" where
  "control_gripper s left_gripper_position right_gripper_position =
     (let l = clip left_gripper_position 0.002 0.037;
          r = clip right_gripper_position 0.002 0.037;
          d1 = (data s)\<lparr> ctrl := (ctrl (data s))(left_gripper_actuator_id s := l) \<rparr>;
          d2 = d1\<lparr> ctrl := (ctrl d1)(right_gripper_actuator_id s := r) \<rparr>
      in s\<lparr> data := d2 \<rparr>)"

text \<open>\<open>SO3.as_matrix().flatten()\<close>: the rotation matrix of a unit quaternion, row by row.\<close>

fun as_matrix_flat :: "so3 \<Rightarrow> vec" where
  "as_matrix_flat (SO3 w x y z) =
     [1 - 2 * (y * y + z * z), 2 * (x * y - z * w), 2 * (x * z + y * w),
      2 * (x * y + z * w), 1 - 2 * (x * x + z * z), 2 * (y * z - x * w),
      2 * (x * z - y * w), 2 * (y * z + x * w), 1 - 2 * (x * x + y * y)]"

definition update_target_sites :: "controller \<Rightarrow> vec \<Rightarrow> vec \<Rightarrow> so3 \<Rightarrow> so3 \<Rightarrow> controller" where
  "update_target_sites s tgt_l tgt_r rt_l rt_r =
     (let d0 = data s;
          d1 = d0\<lparr> site_xpos := (site_xpos d0)(target_site_id_l s := tgt_l) \<rparr>;
          d2 = d1\<lparr> site_pos := (site_pos d1)(target_site_id_l s := tgt_l) \<rparr>;
          d3 = d2\<lparr> site_xpos := (site_xpos d2)(target_site_id_r s := tgt_r) \<rparr>;
          d4 = d3\<lparr> site_pos := (site_pos d3)(target_site_id_r s := tgt_r) \<rparr>;
          d5 = d4\<lparr> site_xmat := (site_xmat d4)(target_site_id_l s := as_matrix_flat rt_l) \<rparr>;
          d6 = d5\<lparr> site_xmat := (site_xmat d5)(target_site_id_r s := as_matrix_flat rt_r) \<rparr>
      in s\<lparr> data := d6 \<rparr>)"

text \<open>\<open>add_target_sites\<close>; the two site ids are what the model answers for the names.\<close>

definition add_target_sites :: "controller \<Rightarrow> nat \<Rightarrow> nat \<Rightarrow> controller" where
  "add_target_sites s site_l site_r =
     (let s1 = s\<lparr> target_site_id_l := site_l, target_site_id_r := site_r \<rparr>
      in update_target_sites s1 (target_l s1) (target_r s1) (rot_l s1) (rot_r s1))"

definition emit :: "event \<Rightarrow> run_state \<Rightarrow> run_state" where
  "emit e s = s\<lparr> self := (self s)\<lparr> trace := trace (self s) @ [e] \<rparr> \<rparr>"

text \<open>Lines 183 to 190: the head of one pass of the \<open>while\<close> loop.\<close>

definition tick_head :: "run_state \<Rightarrow> run_state" where
  "tick_head s0 =
     (let c0 = self s0;
          s1 = s0\<lparr> self := control_gripper c0 (left_gripper_pos c0) (right_gripper_pos c0) \<rparr>
      in if targets_updated (self s1) then
           (let c1 = self s1;
                pose = from_rotation_and_translation (rot_l c1) (target_l c1);
                s2 = emit (Set_target_l pose) (s1\<lparr> l_target_pose := pose, l_ee_task := pose \<rparr>);
                c2 = self s2;
                c3 = update_target_sites c2 (target_l c2) (target_r c2) (rot_l c2) (rot_r c2)
            in s2\<lparr> self := c3\<lparr> targets_updated := False \<rparr> \<rparr>)
         else s1)"

text \<open>Lines 193 to 222: one pass of the \<open>for\<close> loop.\<close>

definition inner_iteration :: "externals \<Rightarrow> arm \<Rightarrow> arm \<Rightarrow> run_state \<Rightarrow> outcome" where
  "inner_iteration ext la ra s0 =
     (let s1 = emit Call_solve_ik s0 in
      case solve_ik ext (left_configuration s1) (data (self s1)) [l_ee_task s1] rate_dt solver limits 0.001 of
        Inl e \<Rightarrow> Inl (e, s1)
      | Inr left_vel \<Rightarrow>
      (let right_vel = replicate (length (dq (right_configuration s1))) 0 in
       case integrate_inplace (left_configuration s1) left_vel rate_dt of
         Inl e \<Rightarrow> Inl (e, s1)
       | Inr lc \<Rightarrow>
       (let s2 = s1\<lparr> left_configuration := lc \<rparr> in
        case integrate_inplace (right_configuration s2) right_vel rate_dt of
          Inl e \<Rightarrow> Inl (e, s2)
        | Inr rc \<Rightarrow>
        (let s3 = s2\<lparr> right_configuration := rc \<rparr>; d3 = data (self s3) in
         case set_items (qpos d3) (relevant_qpos_indices la) (q lc) of
           Inl e \<Rightarrow> Inl (e, s3)
         | Inr a4 \<Rightarrow>
         (let d4 = d3\<lparr> qpos := a4 \<rparr>; s4 = s3\<lparr> self := (self s3)\<lparr> data := d4 \<rparr> \<rparr> in
          case set_items (qpos d4) (relevant_qpos_indices ra) (q rc) of
            Inl e \<Rightarrow> Inl (e, s4)
          | Inr a5 \<Rightarrow>
          (let d5 = d4\<lparr> qpos := a5 \<rparr>; s5 = s4\<lparr> self := (self s4)\<lparr> data := d5 \<rparr> \<rparr> in
           case set_items (qvel d5) (relevant_qvel_indices la) (dq lc) of
             Inl e \<Rightarrow> Inl (e, s5)
           | Inr a6 \<Rightarrow>
           (let d6 = d5\<lparr> qvel := a6 \<rparr>; s6 = s5\<lparr> self := (self s5)\<lparr> data := d6 \<rparr> \<rparr> in
            case set_items (qvel d6) (relevant_qvel_indices ra) (dq rc) of
              Inl e \<Rightarrow> Inl (e, s6)
            | Inr a7 \<Rightarrow>
            (let d7 = d6\<lparr> qvel := a7 \<rparr>; s7 = s6\<lparr> self := (self s6)\<lparr> data := d7 \<rparr> \<rparr> in
             case set_items (ctrl d7) (actuator_ids la) (q lc) of
               Inl e \<Rightarrow> Inl (e, s7)
             | Inr a8 \<Rightarrow>
             (let d8 = d7\<lparr> ctrl := a8 \<rparr>; s8 = s7\<lparr> self := (self s7)\<lparr> data := d8 \<rparr> \<rparr> in
              case set_items (ctrl d8) (actuator_ids ra) (q rc) of
                Inl e \<Rightarrow> Inl (e, s8)
              | Inr a9 \<Rightarrow>
              (let d9 = d8\<lparr> ctrl := a9 \<rparr>;
                   c9 = (self s8)\<lparr> data := d9 \<rparr>;
                   c10 = control_gripper c9 (left_gripper_pos c9) (right_gripper_pos c9);
                   s10 = emit (Print_grippers (left_gripper_pos c10) (right_gripper_pos c10))
                           (s8\<lparr> self := c10 \<rparr>);
                   s11 = emit Mj_step (s10\<lparr> self := (self s10)\<lparr> data := mj_step ext (data (self s10)) \<rparr> \<rparr>);
                   s12 = emit Viewer_sync s11
               in Inr (emit Rate_sleep s12)))))))))))"

text \<open>\<open>for _ in range(n)\<close>: the body has no \<open>break\<close>; only a raise leaves it early.\<close>

fun inner_loop :: "nat \<Rightarrow> externals \<Rightarrow> arm \<Rightarrow> arm \<Rightarrow> run_state \<Rightarrow> outcome" where
  "inner_loop 0 ext la ra s = Inr s"
| "inner_loop (Suc n) ext la ra s =
     (case inner_iteration ext la ra s of
        Inl e \<Rightarrow> Inl e
      | Inr s' \<Rightarrow> inner_loop n ext la ra s')"

text \<open>One pass of the \<open>while\<close> loop (an outer tick).\<close>

definition outer_tick :: "externals \<Rightarrow> arm \<Rightarrow> arm \<Rightarrow> run_state \<Rightarrow> outcome" where
  "outer_tick ext la ra s = inner_loop max_iters ext la ra (tick_head s)"

text \<open>
  The \<open>while viewer.is_running()\<close> loop, from its k-th poll on, followed by
  \<open>self.mouse_listener.stop()\<close>. The window may stay open for ever, so the loop has
  fuel: \<open>None\<close> means that \<open>run\<close> has not returned within that many polls.
\<close>

fun while_loop :: "nat \<Rightarrow> externals \<Rightarrow> arm \<Rightarrow> arm \<Rightarrow> nat \<Rightarrow> run_state \<Rightarrow> outcome option" where
  "while_loop 0 ext la ra k s = None"
| "while_loop (Suc fuel) ext la ra k s =
     (if is_running ext k then
        (case outer_tick ext la ra s of
           Inl e \<Rightarrow> Some (Inl e)
         | Inr s' \<Rightarrow> while_loop fuel ext la ra (Suc k) s')
      else Some (Inr (emit Listener_stop (s\<lparr> self := (self s)\<lparr> listener_running := False \<rparr> \<rparr>))))"

text \<open>
  \<open>run\<close>, from the construction of the two configurations to the first poll of the
  viewer. The index arrays of the arms and the two site ids are what the model
  answers for the joint, actuator and site names.
\<close>

definition run_setup :: "externals \<Rightarrow> arm \<Rightarrow> arm \<Rightarrow> nat \<Rightarrow> nat \<Rightarrow> controller \<Rightarrow> run_state" where
  "run_setup ext la ra site_l site_r c0 =
     (let lc = ReducedConfiguration (data c0) (relevant_qpos_indices la) (relevant_qvel_indices la);
          rc = ReducedConfiguration (data c0) (relevant_qpos_indices ra) (relevant_qvel_indices ra);
          c1 = add_target_sites c0 site_l site_r;
          c2 = c1\<lparr> data := mj_forward ext (data c1) \<rparr>;
          lp = from_rotation_and_translation (rot_l c2) (target_l c2);
          rp = from_rotation_and_translation (rot_r c2) (target_r c2);
          s0 = \<lparr> self = c2, left_configuration = lc, right_configuration = rc,
                 l_target_pose = lp, l_ee_task = lp, r_ee_task = rp \<rparr>
      in emit (Set_target_r rp) (emit (Set_target_l lp) s0))"

definition run :: "nat \<Rightarrow> externals \<Rightarrow> arm \<Rightarrow> arm \<Rightarrow> nat \<Rightarrow> nat \<Rightarrow> controller \<Rightarrow> outcome option" where
  "run fuel ext la ra site_l site_r c0 =
     while_loop fuel ext la ra 0 (run_setup ext la ra site_l site_r c0)"


fun final_state :: "outcome \<Rightarrow> run_state" where
  "final_state (Inl (e, s)) = s"
| "final_state (Inr s) = s"

section \<open>Well-formed states and example inputs\<close>

text \<open>
  What \<open>__init__\<close> establishes and the callbacks keep: the target has three
  coordinates, the bounds and the step have their initial values, and the target and
  the gripper openings are inside their ranges.
\<close>

definition callback_inv :: "controller \<Rightarrow> bool" where
  "callback_inv s \<longleftrightarrow>
     length (target_l s) = 3 \<and>
     x_min s = - 0.4 \<and> x_max s = 0.4 \<and>
     y_min s = - 0.4 \<and> y_max s = 0.4 \<and>
     z_min s = 0.8 \<and> z_max s = 1.4 \<and>
     delta s = 0.01 \<and>
     - 0.4 \<le> target_l s ! 0 \<and> target_l s ! 0 \<le> 0.4 \<and>
     - 0.4 \<le> target_l s ! 1 \<and> target_l s ! 1 \<le> 0.4 \<and>
     0.8 \<le> target_l s ! 2 \<and> target_l s ! 2 \<le> 1.4 \<and>
     0.002 \<le> left_gripper_pos s \<and> left_gripper_pos s \<le> 0.037 \<and>
     0.002 \<le> right_gripper_pos s \<and> right_gripper_pos s \<le> 0.037"

text \<open>The vectors of both configurations have one entry per index of their arm.\<close>

definition sized :: "arm \<Rightarrow> arm \<Rightarrow> run_state \<Rightarrow> bool" where
  "sized la ra s \<longleftrightarrow>
     length (q (left_configuration s)) = length (relevant_qpos_indices la) \<and>
     length (relevant_qvel_indices la) = length (relevant_qpos_indices la) \<and>
     length (actuator_ids la) = length (relevant_qpos_indices la) \<and>
     length (q (right_configuration s)) = length (relevant_qpos_indices ra) \<and>
     length (dq (right_configuration s)) = length (relevant_qpos_indices ra) \<and>
     length (relevant_qvel_indices ra) = length (relevant_qpos_indices ra) \<and>
     length (actuator_ids ra) = length (relevant_qpos_indices ra)"

text \<open>A solver that always answers, with one velocity per joint of the configuration.\<close>

definition solver_total :: "externals \<Rightarrow> bool" where
  "solver_total ext \<longleftrightarrow>
     (\<forall>c d ts. \<exists>v. solve_ik ext c d ts rate_dt solver limits 0.001 = Inr v \<and> length v = length (q c))"

text \<open>
  A scene at rest with the two arms of six joints each (the left arm's joints at
  indices 0 to 5, the right arm's at 8 to 13, the gripper actuators at 6 and 13), a
  solver that finds the target reached and answers zero velocity while the window
  closes at the n-th poll, and a solver that finds the problem infeasible while the
  window stays open.
\<close>

definition demo_data :: mjdata where
  "demo_data =
     \<lparr> qpos = (\<lambda>i. 0), qvel = (\<lambda>i. 0), ctrl = (\<lambda>i. 0),
       site_xpos = (\<lambda>i. [0, 0, 0]), site_xmat = (\<lambda>i. as_matrix_flat SO3_identity),
       site_pos = (\<lambda>i. [0, 0, 0]) \<rparr>"

definition demo_left :: arm where
  "demo_left =
     \<lparr> actuator_ids = [0, 1, 2, 3, 4, 5],
       relevant_qpos_indices = [0, 1, 2, 3, 4, 5],
       relevant_qvel_indices = [0, 1, 2, 3, 4, 5] \<rparr>"

definition demo_right :: arm where
  "demo_right =
     \<lparr> actuator_ids = [7, 8, 9, 10, 11, 12],
       relevant_qpos_indices = [8, 9, 10, 11, 12, 13],
       relevant_qvel_indices = [8, 9, 10, 11, 12, 13] \<rparr>"

definition demo_controller :: controller where
  "demo_controller = init demo_data 6 13"

definition ext_converged :: "nat \<Rightarrow> externals" where
  "ext_converged n =
     \<lparr> solve_ik = (\<lambda>c d ts dt sv ls dmp. Inr (replicate (length (q c)) 0)),
       mj_step = (\<lambda>d. d), mj_forward = (\<lambda>d. d), is_running = (\<lambda>k. k < n) \<rparr>"

definition ext_infeasible :: externals where
  "ext_infeasible =
     \<lparr> solve_ik = (\<lambda>c d ts dt sv ls dmp. Inl Solver_infeasible),
       mj_step = (\<lambda>d. d), mj_forward = (\<lambda>d. d), is_running = (\<lambda>k. True) \<rparr>"

text \<open>The state in which the loop starts in that scene; the set-up uses only
  \<open>mj_forward\<close> of the collaborators, which is the same in both.\<close>

definition demo_state :: run_state where
  "demo_state = run_setup ext_infeasible demo_left demo_right 0 1 demo_controller"

section \<open>Facts about the callbacks\<close>

lemma clip_above: "hi < a \<Longrightarrow> clip a lo hi = hi"
  by (simp add: clip_def)

lemma clip_below: "a < lo \<Longrightarrow> lo \<le> hi \<Longrightarrow> clip a lo hi = lo"
  by (simp add: clip_def)

lemma clip_clip: "lo \<le> hi \<Longrightarrow> clip (clip a lo hi) lo hi = clip a lo hi"
  by (simp add: clip_def)

lemma on_scroll_frame:
  "target_r (on_scroll s x y dx dy) = target_r s"
  "rot_l (on_scroll s x y dx dy) = rot_l s"
  "rot_r (on_scroll s x y dx dy) = rot_r s"
  "x_min (on_scroll s x y dx dy) = x_min s"
  "x_max (on_scroll s x y dx dy) = x_max s"
  "y_min (on_scroll s x y dx dy) = y_min s"
  "y_max (on_scroll s x y dx dy) = y_max s"
  "z_min (on_scroll s x y dx dy) = z_min s"
  "z_max (on_scroll s x y dx dy) = z_max s"
  "delta (on_scroll s x y dx dy) = delta s"
  "data (on_scroll s x y dx dy) = data s"
  "listener_running (on_scroll s x y dx dy) = listener_running s"
  "length (target_l (on_scroll s x y dx dy)) = length (target_l s)"
  by (simp_all add: on_scroll_def Let_def)

lemma on_click_frame:
  "target_r (on_click s x y b p) = target_r s"
  "rot_l (on_click s x y b p) = rot_l s"
  "rot_r (on_click s x y b p) = rot_r s"
  "x_min (on_click s x y b p) = x_min s"
  "x_max (on_click s x y b p) = x_max s"
  "y_min (on_click s x y b p) = y_min s"
  "y_max (on_click s x y b p) = y_max s"
  "z_min (on_click s x y b p) = z_min s"
  "z_max (on_click s x y b p) = z_max s"
  "delta (on_click s x y b p) = delta s"
  "data (on_click s x y b p) = data s"
  "listener_running (on_click s x y b p) = listener_running s"
  "left_gripper_pos (on_click s x y b p) = left_gripper_pos s"
  "right_gripper_pos (on_click s x y b p) = right_gripper_pos s"
  "length (target_l (on_click s x y b p)) = length (target_l s)"
  by (simp_all add: on_click_def Let_def)

text \<open>What each callback leaves in each coordinate, in one formula per coordinate.\<close>

lemma on_scroll_x:
  "length (target_l s) = 3 \<Longrightarrow>
   target_l (on_scroll s x y dx dy) ! 0 =
     clip (target_l s ! 0 + real_of_int (sgn dx) * delta s) (x_min s) (x_max s)"
  by (simp add: on_scroll_def Let_def nth_list_update)

lemma on_scroll_y:
  "length (target_l s) = 3 \<Longrightarrow>
   target_l (on_scroll s x y dx dy) ! 1 =
     clip (target_l s ! 1 - real_of_int (sgn dy) * delta s) (y_min s) (y_max s)"
  by (simp add: on_scroll_def Let_def nth_list_update)

lemma on_scroll_z:
  "target_l (on_scroll s x y dx dy) ! 2 = target_l s ! 2"
  by (simp add: on_scroll_def Let_def nth_list_update)

lemma on_scroll_grippers:
  "left_gripper_pos (on_scroll s x y dx dy) =
     clip (left_gripper_pos s + real_of_int (sgn dx) * delta s) 0.002 0.037"
  "right_gripper_pos (on_scroll s x y dx dy) =
     clip (right_gripper_pos s + real_of_int (sgn dx) * delta s) 0.002 0.037"
  by (simp_all add: on_scroll_def Let_def)

lemma on_click_xy:
  "target_l (on_click s x y b p) ! 0 = target_l s ! 0"
  "target_l (on_click s x y b p) ! 1 = target_l s ! 1"
  by (simp_all add: on_click_def Let_def nth_list_update)

lemma on_click_z:
  "length (target_l s) = 3 \<Longrightarrow> p \<Longrightarrow>
   target_l (on_click s x y b p) ! 2 =
     clip (target_l s ! 2 +
            (if b = Button_left then delta s else if b = Button_right then - delta s else 0))
       (z_min s) (z_max s)"
  by (simp add: on_click_def Let_def nth_list_update)

lemma on_click_released: "on_click s x y b False = s"
  by (simp add: on_click_def)

lemma on_scroll_sign_only:
  "on_scroll s x y dx dy = on_scroll s x' y' (sgn dx) (sgn dy)"
  by (simp only: on_scroll_def sgn_greater sgn_less)

lemma clip_ge: "lo \<le> hi \<Longrightarrow> lo \<le> clip a lo hi"
  by (simp add: clip_def)

lemma clip_le: "clip a lo hi \<le> hi"
  by (simp add: clip_def)

lemma callback_inv_init: "callback_inv (init d lid rid)"
  by (simp add: callback_inv_def init_def)

lemma callback_inv_on_scroll:
  assumes "callback_inv s"
  shows "callback_inv (on_scroll s x y dx dy)"
proof -
  let ?s' = "on_scroll s x y dx dy"
  from assms have len: "length (target_l s) = 3"
    and xs: "x_min s = - 0.4" "x_max s = 0.4"
    and ys: "y_min s = - 0.4" "y_max s = 0.4"
    and zs: "z_min s = 0.8" "z_max s = 1.4"
    and dl: "delta s = 0.01"
    and z: "0.8 \<le> target_l s ! 2" "target_l s ! 2 \<le> 1.4"
    unfolding callback_inv_def by blast+
  have f: "length (target_l ?s') = 3" "x_min ?s' = - 0.4" "x_max ?s' = 0.4"
    "y_min ?s' = - 0.4" "y_max ?s' = 0.4" "z_min ?s' = 0.8" "z_max ?s' = 1.4"
    "delta ?s' = 0.01"
    using len xs ys zs dl by (simp_all only: on_scroll_frame)
  have x: "- 0.4 \<le> target_l ?s' ! 0" "target_l ?s' ! 0 \<le> 0.4"
    unfolding on_scroll_x [OF len] xs by (rule clip_ge, simp) (rule clip_le)
  have y: "- 0.4 \<le> target_l ?s' ! 1" "target_l ?s' ! 1 \<le> 0.4"
    unfolding on_scroll_y [OF len] ys by (rule clip_ge, simp) (rule clip_le)
  have z': "0.8 \<le> target_l ?s' ! 2" "target_l ?s' ! 2 \<le> 1.4"
    using z by (simp_all only: on_scroll_z)
  have g: "0.002 \<le> left_gripper_pos ?s'" "left_gripper_pos ?s' \<le> 0.037"
    "0.002 \<le> right_gripper_pos ?s'" "right_gripper_pos ?s' \<le> 0.037"
    unfolding on_scroll_grippers
    by (rule clip_ge, simp, rule clip_le, rule clip_ge, simp, rule clip_le)
  show ?thesis
    unfolding callback_inv_def using f x y z' g by blast
qed

lemma callback_inv_on_click:
  assumes "callback_inv s"
  shows "callback_inv (on_click s x y b p)"
proof (cases p)
  case False
  with assms show ?thesis by (simp only: on_click_released)
next
  case True
  let ?s' = "on_click s x y b p"
  from assms have len: "length (target_l s) = 3"
    and xs: "x_min s = - 0.4" "x_max s = 0.4"
    and ys: "y_min s = - 0.4" "y_max s = 0.4"
    and zs: "z_min s = 0.8" "z_max s = 1.4"
    and dl: "delta s = 0.01"
    and xy: "- 0.4 \<le> target_l s ! 0" "target_l s ! 0 \<le> 0.4"
      "- 0.4 \<le> target_l s ! 1" "target_l s ! 1 \<le> 0.4"
    and g: "0.002 \<le> left_gripper_pos s" "left_gripper_pos s \<le> 0.037"
      "0.002 \<le> right_gripper_pos s" "right_gripper_pos s \<le> 0.037"
    unfolding callback_inv_def by blast+
  have f: "length (target_l ?s') = 3" "x_min ?s' = - 0.4" "x_max ?s' = 0.4"
    "y_min ?s' = - 0.4" "y_max ?s' = 0.4" "z_min ?s' = 0.8" "z_max ?s' = 1.4"
    "delta ?s' = 0.01"
    using len xs ys zs dl by (simp_all only: on_click_frame)
  have xy': "- 0.4 \<le> target_l ?s' ! 0" "target_l ?s' ! 0 \<le> 0.4"
    "- 0.4 \<le> target_l ?s' ! 1" "target_l ?s' ! 1 \<le> 0.4"
    using xy by (simp_all only: on_click_xy)
  have g': "0.002 \<le> left_gripper_pos ?s'" "left_gripper_pos ?s' \<le> 0.037"
    "0.002 \<le> right_gripper_pos ?s'" "right_gripper_pos ?s' \<le> 0.037"
    using g by (simp_all only: on_click_frame)
  have z: "0.8 \<le> target_l ?s' ! 2" "target_l ?s' ! 2 \<le> 1.4"
    unfolding on_click_z [OF len True] zs by (rule clip_ge, simp) (rule clip_le)
  show ?thesis
    unfolding callback_inv_def using f xy' z g' by blast
qed

lemma callback_inv_handle_event: "callback_inv s \<Longrightarrow> callback_inv (handle_event s e)"
  by (cases e) (simp_all add: callback_inv_on_scroll callback_inv_on_click)

lemma callback_inv_after_events: "callback_inv s \<Longrightarrow> callback_inv (after_events s es)"
  unfolding after_events_def
  by (induction es arbitrary: s) (simp_all add: callback_inv_handle_event)

lemma handle_event_frame:
  "target_r (handle_event s e) = target_r s"
  "rot_l (handle_event s e) = rot_l s"
  "rot_r (handle_event s e) = rot_r s"
  by (cases e; simp add: on_scroll_frame on_click_frame)+

lemma after_events_frame:
  "target_r (after_events s es) = target_r s \<and>
   rot_l (after_events s es) = rot_l s \<and>
   rot_r (after_events s es) = rot_r s"
  unfolding after_events_def
  by (induction es arbitrary: s) (simp_all add: handle_event_frame)

section \<open>Facts about the control loop\<close>

lemma emit_simps:
  "trace (self (emit e s)) = trace (self s) @ [e]"
  "left_configuration (emit e s) = left_configuration s"
  "right_configuration (emit e s) = right_configuration s"
  "l_ee_task (emit e s) = l_ee_task s"
  "r_ee_task (emit e s) = r_ee_task s"
  "l_target_pose (emit e s) = l_target_pose s"
  "data (self (emit e s)) = data (self s)"
  "listener_running (self (emit e s)) = listener_running (self s)"
  "targets_updated (self (emit e s)) = targets_updated (self s)"
  "left_gripper_pos (self (emit e s)) = left_gripper_pos (self s)"
  "right_gripper_pos (self (emit e s)) = right_gripper_pos (self s)"
  by (simp_all add: emit_def)

lemma control_gripper_simps:
  "trace (control_gripper c l r) = trace c"
  "listener_running (control_gripper c l r) = listener_running c"
  "targets_updated (control_gripper c l r) = targets_updated c"
  "left_gripper_pos (control_gripper c l r) = left_gripper_pos c"
  "right_gripper_pos (control_gripper c l r) = right_gripper_pos c"
  "target_l (control_gripper c l r) = target_l c"
  "target_r (control_gripper c l r) = target_r c"
  "rot_l (control_gripper c l r) = rot_l c"
  "rot_r (control_gripper c l r) = rot_r c"
  by (simp_all add: control_gripper_def Let_def)

lemma update_target_sites_simps:
  "trace (update_target_sites c a b u v) = trace c"
  "listener_running (update_target_sites c a b u v) = listener_running c"
  "targets_updated (update_target_sites c a b u v) = targets_updated c"
  "left_gripper_pos (update_target_sites c a b u v) = left_gripper_pos c"
  "right_gripper_pos (update_target_sites c a b u v) = right_gripper_pos c"
  "target_l (update_target_sites c a b u v) = target_l c"
  "target_r (update_target_sites c a b u v) = target_r c"
  "rot_l (update_target_sites c a b u v) = rot_l c"
  "rot_r (update_target_sites c a b u v) = rot_r c"
  by (simp_all add: update_target_sites_def Let_def)

lemma inner_iteration_Inr:
  assumes "inner_iteration ext la ra s = Inr s'"
  shows "trace (self s') = trace (self s) @
           [Call_solve_ik, Print_grippers (left_gripper_pos (self s)) (right_gripper_pos (self s)),
            Mj_step, Viewer_sync, Rate_sleep]"
    and "left_gripper_pos (self s') = left_gripper_pos (self s)"
    and "right_gripper_pos (self s') = right_gripper_pos (self s)"
    and "listener_running (self s') = listener_running (self s)"
    and "targets_updated (self s') = targets_updated (self s)"
    and "l_ee_task s' = l_ee_task s"
  using assms
  by (auto simp: inner_iteration_def Let_def emit_def control_gripper_def split: sum.splits)

lemma inner_iteration_Inl:
  assumes "inner_iteration ext la ra s = Inl (e, s')"
  shows "trace (self s') = trace (self s) @ [Call_solve_ik]"
    and "listener_running (self s') = listener_running (self s)"
  using assms
  by (auto simp: inner_iteration_def Let_def emit_def control_gripper_def split: sum.splits)

lemma set_items_same_length:
  "length vals = length indices \<Longrightarrow>
   set_items a indices vals = Inr (foldl (\<lambda>a (i, v). a(i := v)) a (zip indices vals))"
  by (simp add: set_items_def)

lemma inner_iteration_succeeds:
  assumes "sized la ra s" and "solver_total ext"
  shows "\<exists>s'. inner_iteration ext la ra s = Inr s' \<and> sized la ra s'"
proof -
  from assms(2) obtain v where
    v: "solve_ik ext (left_configuration s) (data (self s)) [l_ee_task s] rate_dt solver limits 0.001 = Inr v"
      "length v = length (q (left_configuration s))"
    unfolding solver_total_def by blast
  with assms(1) show ?thesis
    by (simp add: inner_iteration_def Let_def emit_def sized_def integrate_inplace_def
        set_items_same_length)
qed

lemma inner_loop_succeeds:
  "sized la ra s \<Longrightarrow> solver_total ext \<Longrightarrow>
   \<exists>s'. inner_loop n ext la ra s = Inr s' \<and> sized la ra s'"
proof (induction n arbitrary: s)
  case 0
  then show ?case by simp
next
  case (Suc n)
  from inner_iteration_succeeds [OF Suc.prems] obtain s1 where
    s1: "inner_iteration ext la ra s = Inr s1" "sized la ra s1" by blast
  from Suc.IH [OF s1(2) Suc.prems(2)] s1(1) show ?case by simp
qed

lemma tick_head_sized: "sized la ra (tick_head s) = sized la ra s"
  by (simp add: tick_head_def sized_def Let_def emit_def)

lemma outer_tick_succeeds:
  "sized la ra s \<Longrightarrow> solver_total ext \<Longrightarrow>
   \<exists>s'. outer_tick ext la ra s = Inr s' \<and> sized la ra s'"
  unfolding outer_tick_def by (rule inner_loop_succeeds) (simp_all add: tick_head_sized)

lemma while_loop_returns:
  assumes "solver_total ext"
  shows "sized la ra s \<Longrightarrow> \<forall>j<m. is_running ext (k + j) \<Longrightarrow> \<not> is_running ext (k + m) \<Longrightarrow>
         m < fuel \<Longrightarrow> \<exists>s'. while_loop fuel ext la ra k s = Some (Inr s')"
proof (induction m arbitrary: k s fuel)
  case 0
  then obtain f where "fuel = Suc f" by (cases fuel) auto
  with 0 show ?case by simp
next
  case (Suc m)
  then obtain f where f: "fuel = Suc f" by (cases fuel) auto
  from Suc.prems(2) have run0: "is_running ext k" by (metis add.right_neutral zero_less_Suc)
  from outer_tick_succeeds [OF Suc.prems(1) assms] obtain s1 where
    s1: "outer_tick ext la ra s = Inr s1" "sized la ra s1" by blast
  have a: "\<forall>j<m. is_running ext (Suc k + j)"
    using Suc.prems(2) by (metis Suc_less_eq add_Suc_right add_Suc)
  have b: "\<not> is_running ext (Suc k + m)" using Suc.prems(3) by simp
  have c: "m < f" using Suc.prems(4) f by simp
  from Suc.IH [OF s1(2) a b c] show ?case using f run0 s1(1) by simp
qed


lemma inner_loop_final:
  "listener_running (self (final_state (inner_loop n ext la ra s))) = listener_running (self s) \<and>
   (\<exists>evs. trace (self (final_state (inner_loop n ext la ra s))) = trace (self s) @ evs \<and>
      (0 < n \<longrightarrow> take 1 evs = [Call_solve_ik]))"
proof (induction n arbitrary: s)
  case 0
  then show ?case by simp
next
  case (Suc n)
  show ?case
  proof (cases "inner_iteration ext la ra s")
    case (Inl r)
    obtain e s1 where r: "r = (e, s1)" by (cases r)
    from inner_iteration_Inl [of ext la ra s e s1] Inl r show ?thesis by simp
  next
    case (Inr s1)
    from Suc.IH [of s1] obtain evs where
      "listener_running (self (final_state (inner_loop n ext la ra s1))) = listener_running (self s1)"
      "trace (self (final_state (inner_loop n ext la ra s1))) = trace (self s1) @ evs"
      by blast
    with inner_iteration_Inr [OF Inr] Inr show ?thesis by simp
  qed
qed

lemma tick_head_simps:
  "trace (self (tick_head s)) = trace (self s) @
     (if targets_updated (self s)
      then [Set_target_l (from_rotation_and_translation (rot_l (self s)) (target_l (self s)))]
      else [])"
  "l_ee_task (tick_head s) =
     (if targets_updated (self s)
      then from_rotation_and_translation (rot_l (self s)) (target_l (self s))
      else l_ee_task s)"
  "targets_updated (self (tick_head s)) = False"
  "listener_running (self (tick_head s)) = listener_running (self s)"
  "left_gripper_pos (self (tick_head s)) = left_gripper_pos (self s)"
  "right_gripper_pos (self (tick_head s)) = right_gripper_pos (self s)"
  by (simp_all add: tick_head_def Let_def emit_def control_gripper_simps update_target_sites_simps)


lemma inner_iteration_integrates:
  assumes "inner_iteration ext la ra s = Inr s'"
  shows "\<exists>v. solve_ik ext (left_configuration s) (data (self s)) [l_ee_task s] rate_dt solver limits 0.001 = Inr v \<and>
           integrate_inplace (left_configuration s) v rate_dt = Inr (left_configuration s') \<and>
           integrate_inplace (right_configuration s)
             (replicate (length (dq (right_configuration s))) 0) rate_dt = Inr (right_configuration s')"
  using assms
  by (auto simp: inner_iteration_def Let_def emit_def control_gripper_def split: sum.splits)

lemma inner_iteration_fault:
  assumes "solve_ik ext (left_configuration s) (data (self s)) [l_ee_task s] rate_dt solver limits 0.001 = Inl e"
  shows "inner_iteration ext la ra s = Inl (e, emit Call_solve_ik s)"
  using assms by (simp add: inner_iteration_def Let_def emit_simps)

lemma inner_loop_add:
  "inner_loop (i + j) ext la ra s =
     (case inner_loop i ext la ra s of Inl r \<Rightarrow> Inl r | Inr s1 \<Rightarrow> inner_loop j ext la ra s1)"
  by (induction i arbitrary: s) (simp_all split: sum.splits)

lemma fault_ends_tick:
  assumes "inner_loop i ext la ra (tick_head s0) = Inr s" and "i < max_iters"
    and "solve_ik ext (left_configuration s) (data (self s)) [l_ee_task s] rate_dt solver limits 0.001 = Inl e"
  shows "outer_tick ext la ra s0 = Inl (e, emit Call_solve_ik s)"
proof -
  from assms(2) obtain j where j: "max_iters = i + Suc j"
    by (metis add_Suc_right less_iff_Suc_add)
  show ?thesis
    unfolding outer_tick_def j inner_loop_add assms(1)
    by (simp add: inner_iteration_fault [OF assms(3)])
qed

lemma fault_ends_while_loop:
  assumes "outer_tick ext la ra s0 = Inl r" and "is_running ext k"
  shows "while_loop (Suc fuel) ext la ra k s0 = Some (Inl r)"
  using assms by simp

lemma outer_tick_listener:
  "listener_running (self (final_state (outer_tick ext la ra s))) = listener_running (self s)"
  unfolding outer_tick_def using inner_loop_final [of max_iters ext la ra "tick_head s"]
  by (simp add: tick_head_simps)

lemma while_loop_exit:
  "while_loop fuel ext la ra k s = Some r \<Longrightarrow>
   (case r of
      Inl (e, s') \<Rightarrow> listener_running (self s') = listener_running (self s)
    | Inr s' \<Rightarrow> \<not> listener_running (self s') \<and> last (trace (self s')) = Listener_stop)"
proof (induction fuel arbitrary: k s)
  case 0
  then show ?case by simp
next
  case (Suc fuel)
  show ?case
  proof (cases "is_running ext k")
    case False
    with Suc.prems show ?thesis by (auto simp: emit_def)
  next
    case True
    show ?thesis
    proof (cases "outer_tick ext la ra s")
      case (Inl p)
      with True Suc.prems have r: "r = Inl p" by simp
      obtain e s1 where p: "p = (e, s1)" by (cases p)
      from outer_tick_listener [of ext la ra s] Inl p r show ?thesis by simp
    next
      case (Inr s1)
      with True Suc.prems have "while_loop fuel ext la ra (Suc k) s1 = Some r" by simp
      from Suc.IH [OF this] outer_tick_listener [of ext la ra s] Inr
      show ?thesis by (simp split: sum.splits prod.splits)
    qed
  qed
qed

lemma run_setup_simps:
  "listener_running (self (run_setup ext la ra site_l site_r c)) = listener_running c"
  "targets_updated (self (run_setup ext la ra site_l site_r c)) = targets_updated c"
  "trace (self (run_setup ext la ra site_l site_r c)) =
     trace c @ [Set_target_l (from_rotation_and_translation (rot_l c) (target_l c)),
                Set_target_r (from_rotation_and_translation (rot_r c) (target_r c))]"
  by (simp_all add: run_setup_def Let_def emit_def add_target_sites_def update_target_sites_simps)

lemma run_setup_sized:
  "length (relevant_qvel_indices la) = length (relevant_qpos_indices la) \<Longrightarrow>
   length (actuator_ids la) = length (relevant_qpos_indices la) \<Longrightarrow>
   length (relevant_qvel_indices ra) = length (relevant_qpos_indices ra) \<Longrightarrow>
   length (actuator_ids ra) = length (relevant_qpos_indices ra) \<Longrightarrow>
   sized la ra (run_setup ext la ra site_l site_r c)"
  by (simp add: sized_def run_setup_def Let_def emit_def ReducedConfiguration_def)

lemma demo_sized: "sized demo_left demo_right (run_setup ext demo_left demo_right site_l site_r c)"
  by (rule run_setup_sized) (simp_all add: demo_left_def demo_right_def)

lemma ext_converged_total: "solver_total (ext_converged n)"
  by (simp add: solver_total_def ext_converged_def)

lemma demo_fault:
  "solve_ik ext_infeasible c d ts dt sv ls dmp = Inl Solver_infeasible"
  "is_running ext_infeasible k"
  by (simp_all add: ext_infeasible_def)

lemma demo_run_faults:
  "run (Suc fuel) ext_infeasible demo_left demo_right 0 1 demo_controller =
     Some (Inl (Solver_infeasible, emit Call_solve_ik (tick_head demo_state)))"
  unfolding run_def demo_state_def [symmetric]
  by (rule fault_ends_while_loop [OF fault_ends_tick [of 0]])
    (simp_all add: demo_fault max_iters_def)

lemma map2_add_zeros:
  "length zs = length xs \<Longrightarrow> \<forall>z\<in>set zs. z = 0 \<Longrightarrow> map2 (\<lambda>a v. a + v * (dt::real)) xs zs = xs"
  by (induction xs zs rule: list_induct2') simp_all

lemma integrate_inplace_zeros:
  "integrate_inplace c (replicate n 0) dt = Inr c' \<Longrightarrow>
   n = length (q c) \<and> q c' = q c \<and> dq c' = replicate n 0"
  by (auto simp: integrate_inplace_def map2_add_zeros split: if_splits)

lemma integrate_inplace_Inr:
  "integrate_inplace c v dt = Inr c' \<Longrightarrow>
   length v = length (q c) \<and> c' = \<lparr> q = map2 (\<lambda>a w. a + w * dt) (q c) v, dq = v \<rparr>"
  by (auto simp: integrate_inplace_def split: if_splits)

lemma inner_iteration_effects:
  assumes "inner_iteration ext la ra s = Inr s'"
  shows "\<exists>v a4 a5 a6 a7 a8 a9.
     solve_ik ext (left_configuration s) (data (self s)) [l_ee_task s] rate_dt solver limits 0.001 = Inr v \<and>
     length v = length (q (left_configuration s)) \<and>
     left_configuration s' =
       \<lparr> q = map2 (\<lambda>a w. a + w * rate_dt) (q (left_configuration s)) v, dq = v \<rparr> \<and>
     length (dq (right_configuration s)) = length (q (right_configuration s)) \<and>
     q (right_configuration s') = q (right_configuration s) \<and>
     dq (right_configuration s') = replicate (length (dq (right_configuration s))) 0 \<and>
     set_items (qpos (data (self s))) (relevant_qpos_indices la) (q (left_configuration s')) = Inr a4 \<and>
     set_items a4 (relevant_qpos_indices ra) (q (right_configuration s')) = Inr a5 \<and>
     set_items (qvel (data (self s))) (relevant_qvel_indices la) (dq (left_configuration s')) = Inr a6 \<and>
     set_items a6 (relevant_qvel_indices ra) (dq (right_configuration s')) = Inr a7 \<and>
     set_items (ctrl (data (self s))) (actuator_ids la) (q (left_configuration s')) = Inr a8 \<and>
     set_items a8 (actuator_ids ra) (q (right_configuration s')) = Inr a9 \<and>
     data (self s') =
       mj_step ext ((data (self s))
         \<lparr> qpos := a5, qvel := a7,
           ctrl := a9(left_gripper_actuator_id (self s) := clip (left_gripper_pos (self s)) 0.002 0.037,
                      right_gripper_actuator_id (self s) := clip (right_gripper_pos (self s)) 0.002 0.037) \<rparr>)"
proof -
  from assms obtain v where
    v: "solve_ik ext (left_configuration s) (data (self s)) [l_ee_task s] rate_dt solver limits 0.001 = Inr v"
    by (auto simp: inner_iteration_def Let_def emit_simps split: sum.splits)
  from assms v obtain lc where
    lc: "integrate_inplace (left_configuration s) v rate_dt = Inr lc"
    by (auto simp: inner_iteration_def Let_def emit_simps split: sum.splits)
  from assms v lc obtain rc where
    rc: "integrate_inplace (right_configuration s)
           (replicate (length (dq (right_configuration s))) 0) rate_dt = Inr rc"
    by (auto simp: inner_iteration_def Let_def emit_simps split: sum.splits)
  note l = integrate_inplace_Inr [OF lc]
  note r = integrate_inplace_zeros [OF rc]
  from assms v lc rc have
    "\<exists>a4 a5 a6 a7 a8 a9.
       left_configuration s' = lc \<and> right_configuration s' = rc \<and>
       set_items (qpos (data (self s))) (relevant_qpos_indices la) (q lc) = Inr a4 \<and>
       set_items a4 (relevant_qpos_indices ra) (q rc) = Inr a5 \<and>
       set_items (qvel (data (self s))) (relevant_qvel_indices la) (dq lc) = Inr a6 \<and>
       set_items a6 (relevant_qvel_indices ra) (dq rc) = Inr a7 \<and>
       set_items (ctrl (data (self s))) (actuator_ids la) (q lc) = Inr a8 \<and>
       set_items a8 (actuator_ids ra) (q rc) = Inr a9 \<and>
       data (self s') =
         mj_step ext ((data (self s))
           \<lparr> qpos := a5, qvel := a7,
             ctrl := a9(left_gripper_actuator_id (self s) := clip (left_gripper_pos (self s)) 0.002 0.037,
                        right_gripper_actuator_id (self s) := clip (right_gripper_pos (self s)) 0.002 0.037) \<rparr>)"
    by (auto simp: inner_iteration_def Let_def emit_def control_gripper_def split: sum.splits)
  then obtain a4 a5 a6 a7 a8 a9 where
    e: "left_configuration s' = lc" "right_configuration s' = rc"
      "set_items (qpos (data (self s))) (relevant_qpos_indices la) (q lc) = Inr a4"
      "set_items a4 (relevant_qpos_indices ra) (q rc) = Inr a5"
      "set_items (qvel (data (self s))) (relevant_qvel_indices la) (dq lc) = Inr a6"
      "set_items a6 (relevant_qvel_indices ra) (dq rc) = Inr a7"
      "set_items (ctrl (data (self s))) (actuator_ids la) (q lc) = Inr a8"
      "set_items a8 (actuator_ids ra) (q rc) = Inr a9"
      "data (self s') =
         mj_step ext ((data (self s))
           \<lparr> qpos := a5, qvel := a7,
             ctrl := a9(left_gripper_actuator_id (self s) := clip (left_gripper_pos (self s)) 0.002 0.037,
                        right_gripper_actuator_id (self s) := clip (right_gripper_pos (self s)) 0.002 0.037) \<rparr>)"
    by blast
  show ?thesis
    apply (rule exI [of _ v], rule exI [of _ a4], rule exI [of _ a5], rule exI [of _ a6],
        rule exI [of _ a7], rule exI [of _ a8], rule exI [of _ a9])
    using v l r e by simp
qed




lemma demo_state_facts:
  "targets_updated (self demo_state) = False"
  "length (dq (right_configuration demo_state)) = 6"
  "left_gripper_pos (self demo_state) = 0.02"
  "right_gripper_pos (self demo_state) = 0.02"
  by (simp_all add: demo_state_def run_setup_def Let_def emit_def add_target_sites_def
      update_target_sites_simps ReducedConfiguration_def demo_right_def demo_controller_def init_def)



text \<open>The limits handed to the solver: \<open>pi\<close> for each of the twelve joints.\<close>

lemma velocity_limits_eq:
  "velocity_limits =
     [(''aloha_scene/left_waist'', pi), (''aloha_scene/right_waist'', pi),
      (''aloha_scene/left_shoulder'', pi), (''aloha_scene/right_shoulder'', pi),
      (''aloha_scene/left_elbow'', pi), (''aloha_scene/right_elbow'', pi),
      (''aloha_scene/left_forearm_roll'', pi), (''aloha_scene/right_forearm_roll'', pi),
      (''aloha_scene/left_wrist_angle'', pi), (''aloha_scene/right_wrist_angle'', pi),
      (''aloha_scene/left_wrist_rotate'', pi), (''aloha_scene/right_wrist_rotate'', pi)]"
  by (simp add: velocity_limits_def VELOCITY_LIMITS_def JOINT_NAMES_def)

section \<open>The claims\<close>

text \<open>
  Claim C4. Start from the state \<open>__init__\<close> leaves, with the left target at
  (-0.25, 0.0, 1.1) and both gripper openings at 0.02, and let any finite sequence of
  scroll and click callbacks run. After each of them (after the first \<open>n\<close> events, for
  every \<open>n\<close>) the left target is inside the box: x and y in [-0.4, 0.4], z in
  [0.8, 1.4]; and both gripper openings are in [0.002, 0.037].
\<close>

theorem target_stays_in_box:
  "let s = after_events (init d lid rid) (take n es) in
     - 0.4 \<le> target_l s ! 0 \<and> target_l s ! 0 \<le> 0.4 \<and>
     - 0.4 \<le> target_l s ! 1 \<and> target_l s ! 1 \<le> 0.4 \<and>
     0.8 \<le> target_l s ! 2 \<and> target_l s ! 2 \<le> 1.4 \<and>
     0.002 \<le> left_gripper_pos s \<and> left_gripper_pos s \<le> 0.037 \<and>
     0.002 \<le> right_gripper_pos s \<and> right_gripper_pos s \<le> 0.037"
  using callback_inv_after_events [OF callback_inv_init, of d lid rid "take n es"]
  by (simp add: callback_inv_def Let_def)

text \<open>
  Claim C5. In any state the callbacks can reach from \<open>__init__\<close>, a scroll event
  with a nonzero horizontal delta moves the target's X by the fixed step 0.01, up for
  a positive delta and down for a negative one, and moves both gripper openings by the
  same step in the same direction; each of the three values is then clamped into its
  range, so the change is the step itself whenever the stepped value is in range.
\<close>

theorem horizontal_scroll_steps_x_and_grippers:
  "dx \<noteq> 0 \<Longrightarrow>
   (let s = after_events (init d lid rid) es;
        s' = on_scroll s x y dx dy;
        step = (if 0 < dx then 0.01 else - 0.01)
    in target_l s' ! 0 = clip (target_l s ! 0 + step) (- 0.4) 0.4 \<and>
       left_gripper_pos s' = clip (left_gripper_pos s + step) 0.002 0.037 \<and>
       right_gripper_pos s' = clip (right_gripper_pos s + step) 0.002 0.037)"
proof -
  assume dx: "dx \<noteq> 0"
  let ?s = "after_events (init d lid rid) es"
  have "callback_inv ?s"
    by (rule callback_inv_after_events) (rule callback_inv_init)
  then have len: "length (target_l ?s) = 3"
    and xs: "x_min ?s = - 0.4" "x_max ?s = 0.4"
    and dl: "delta ?s = 0.01"
    unfolding callback_inv_def by blast+
  have sg: "real_of_int (sgn dx) * 0.01 = (if 0 < dx then 0.01 else - 0.01)"
    using dx by (simp add: sgn_if)
  show ?thesis
    unfolding Let_def on_scroll_x [OF len] on_scroll_grippers xs dl sg by simp
qed

text \<open>From the initial state, one scroll to the right: X goes from -0.25 to -0.24 and both
  gripper openings from 0.02 to 0.03.\<close>

theorem horizontal_scroll_steps_witness:
  "(1::int) \<noteq> 0 \<and>
   target_l (on_scroll (after_events (init demo_data 6 13) []) 0 0 1 0) ! 0 = - 0.24 \<and>
   left_gripper_pos (on_scroll (after_events (init demo_data 6 13) []) 0 0 1 0) = 0.03 \<and>
   right_gripper_pos (on_scroll (after_events (init demo_data 6 13) []) 0 0 1 0) = 0.03"
  using horizontal_scroll_steps_x_and_grippers [of 1 demo_data 6 13 "[]" 0 0 0]
  by (simp add: Let_def after_events_def init_def clip_def)

text \<open>
  Claim C10. No sequence of scroll and click callbacks changes the right target or
  either target rotation, whatever the state they start from; from the state
  \<open>__init__\<close> leaves, the right target stays (0.25, 0.0, 1.1) and both rotations
  stay the identity.
\<close>

theorem input_never_moves_right_target_or_rotations:
  "target_r (after_events s es) = target_r s \<and>
   rot_l (after_events s es) = rot_l s \<and>
   rot_r (after_events s es) = rot_r s \<and>
   target_r (after_events (init d lid rid) es) = [0.25, 0.0, 1.1] \<and>
   rot_l (after_events (init d lid rid) es) = SO3_identity \<and>
   rot_r (after_events (init d lid rid) es) = SO3_identity"
  by (simp add: after_events_frame) (simp add: init_def)

text \<open>
  Claim C8. Clamping makes the result independent of the overshoot. Take any state
  whose target has three coordinates and whose bounds are ordered, and any two step
  sizes \<open>d1\<close> and \<open>d2\<close> for \<open>self.delta\<close>. If both steps carry a coordinate past
  the same bound, the callback leaves that coordinate at the bound itself for both:
  X at \<open>x_max\<close> or \<open>x_min\<close> and Y at \<open>y_max\<close> or \<open>y_min\<close> after a scroll, Z at
  \<open>z_max\<close> after a left click and at \<open>z_min\<close> after a right click, and each gripper
  opening at 0.037 or 0.002. The size of the scroll delta itself never matters, only
  its sign; and clamping a clamped value again changes nothing.
\<close>

theorem clamp_overshoot_independent_of_step:
  assumes "length (target_l s) = 3"
    and "x_min s \<le> x_max s" and "y_min s \<le> y_max s" and "z_min s \<le> z_max s"
  shows
    "(0 < dx \<and> x_max s < target_l s ! 0 + d1 \<and> x_max s < target_l s ! 0 + d2 \<longrightarrow>
        target_l (on_scroll (s\<lparr>delta := d1\<rparr>) x y dx dy) ! 0 = x_max s \<and>
        target_l (on_scroll (s\<lparr>delta := d2\<rparr>) x y dx dy) ! 0 = x_max s) \<and>
     (dx < 0 \<and> target_l s ! 0 - d1 < x_min s \<and> target_l s ! 0 - d2 < x_min s \<longrightarrow>
        target_l (on_scroll (s\<lparr>delta := d1\<rparr>) x y dx dy) ! 0 = x_min s \<and>
        target_l (on_scroll (s\<lparr>delta := d2\<rparr>) x y dx dy) ! 0 = x_min s) \<and>
     (dy < 0 \<and> y_max s < target_l s ! 1 + d1 \<and> y_max s < target_l s ! 1 + d2 \<longrightarrow>
        target_l (on_scroll (s\<lparr>delta := d1\<rparr>) x y dx dy) ! 1 = y_max s \<and>
        target_l (on_scroll (s\<lparr>delta := d2\<rparr>) x y dx dy) ! 1 = y_max s) \<and>
     (0 < dy \<and> target_l s ! 1 - d1 < y_min s \<and> target_l s ! 1 - d2 < y_min s \<longrightarrow>
        target_l (on_scroll (s\<lparr>delta := d1\<rparr>) x y dx dy) ! 1 = y_min s \<and>
        target_l (on_scroll (s\<lparr>delta := d2\<rparr>) x y dx dy) ! 1 = y_min s) \<and>
     (z_max s < target_l s ! 2 + d1 \<and> z_max s < target_l s ! 2 + d2 \<longrightarrow>
        target_l (on_click (s\<lparr>delta := d1\<rparr>) x y Button_left True) ! 2 = z_max s \<and>
        target_l (on_click (s\<lparr>delta := d2\<rparr>) x y Button_left True) ! 2 = z_max s) \<and>
     (target_l s ! 2 - d1 < z_min s \<and> target_l s ! 2 - d2 < z_min s \<longrightarrow>
        target_l (on_click (s\<lparr>delta := d1\<rparr>) x y Button_right True) ! 2 = z_min s \<and>
        target_l (on_click (s\<lparr>delta := d2\<rparr>) x y Button_right True) ! 2 = z_min s) \<and>
     (0 < dx \<and> 0.037 < left_gripper_pos s + d1 \<and> 0.037 < left_gripper_pos s + d2 \<longrightarrow>
        left_gripper_pos (on_scroll (s\<lparr>delta := d1\<rparr>) x y dx dy) = 0.037 \<and>
        left_gripper_pos (on_scroll (s\<lparr>delta := d2\<rparr>) x y dx dy) = 0.037) \<and>
     (dx < 0 \<and> left_gripper_pos s - d1 < 0.002 \<and> left_gripper_pos s - d2 < 0.002 \<longrightarrow>
        left_gripper_pos (on_scroll (s\<lparr>delta := d1\<rparr>) x y dx dy) = 0.002 \<and>
        left_gripper_pos (on_scroll (s\<lparr>delta := d2\<rparr>) x y dx dy) = 0.002) \<and>
     (0 < dx \<and> 0.037 < right_gripper_pos s + d1 \<and> 0.037 < right_gripper_pos s + d2 \<longrightarrow>
        right_gripper_pos (on_scroll (s\<lparr>delta := d1\<rparr>) x y dx dy) = 0.037 \<and>
        right_gripper_pos (on_scroll (s\<lparr>delta := d2\<rparr>) x y dx dy) = 0.037) \<and>
     (dx < 0 \<and> right_gripper_pos s - d1 < 0.002 \<and> right_gripper_pos s - d2 < 0.002 \<longrightarrow>
        right_gripper_pos (on_scroll (s\<lparr>delta := d1\<rparr>) x y dx dy) = 0.002 \<and>
        right_gripper_pos (on_scroll (s\<lparr>delta := d2\<rparr>) x y dx dy) = 0.002) \<and>
     on_scroll s x y dx dy = on_scroll s x y (sgn dx) (sgn dy) \<and>
     clip (clip a (x_min s) (x_max s)) (x_min s) (x_max s) = clip a (x_min s) (x_max s) \<and>
     clip (clip a (y_min s) (y_max s)) (y_min s) (y_max s) = clip a (y_min s) (y_max s) \<and>
     clip (clip a (z_min s) (z_max s)) (z_min s) (z_max s) = clip a (z_min s) (z_max s)"
proof -
  have len: "length (target_l (s\<lparr>delta := d\<rparr>)) = 3" for d
    using assms(1) by simp
  have x: "target_l (on_scroll (s\<lparr>delta := d\<rparr>) x y dx dy) ! 0 =
      clip (target_l s ! 0 + real_of_int (sgn dx) * d) (x_min s) (x_max s)" for d
    by (simp add: on_scroll_x [OF len])
  have y: "target_l (on_scroll (s\<lparr>delta := d\<rparr>) x y dx dy) ! 1 =
      clip (target_l s ! 1 - real_of_int (sgn dy) * d) (y_min s) (y_max s)" for d
    using on_scroll_y [OF len, of d x y dx dy] by simp
  have zl: "target_l (on_click (s\<lparr>delta := d\<rparr>) x y Button_left True) ! 2 =
      clip (target_l s ! 2 + d) (z_min s) (z_max s)" for d
    by (simp add: on_click_z [OF len])
  have zr: "target_l (on_click (s\<lparr>delta := d\<rparr>) x y Button_right True) ! 2 =
      clip (target_l s ! 2 - d) (z_min s) (z_max s)" for d
    by (simp add: on_click_z [OF len])
  have g: "left_gripper_pos (on_scroll (s\<lparr>delta := d\<rparr>) x y dx dy) =
      clip (left_gripper_pos s + real_of_int (sgn dx) * d) 0.002 0.037"
    "right_gripper_pos (on_scroll (s\<lparr>delta := d\<rparr>) x y dx dy) =
      clip (right_gripper_pos s + real_of_int (sgn dx) * d) 0.002 0.037" for d
    by (simp_all add: on_scroll_grippers)
  have sg: "on_scroll s x y dx dy = on_scroll s x y (sgn dx) (sgn dy)"
    by (rule on_scroll_sign_only)
  have c1: "0 < dx \<and> x_max s < target_l s ! 0 + d1 \<and> x_max s < target_l s ! 0 + d2 \<longrightarrow>
        target_l (on_scroll (s\<lparr>delta := d1\<rparr>) x y dx dy) ! 0 = x_max s \<and>
        target_l (on_scroll (s\<lparr>delta := d2\<rparr>) x y dx dy) ! 0 = x_max s"
    unfolding x by (simp add: clip_above)
  have c2: "dx < 0 \<and> target_l s ! 0 - d1 < x_min s \<and> target_l s ! 0 - d2 < x_min s \<longrightarrow>
        target_l (on_scroll (s\<lparr>delta := d1\<rparr>) x y dx dy) ! 0 = x_min s \<and>
        target_l (on_scroll (s\<lparr>delta := d2\<rparr>) x y dx dy) ! 0 = x_min s"
    unfolding x using assms(2) by (simp add: clip_below)
  have c3: "dy < 0 \<and> y_max s < target_l s ! 1 + d1 \<and> y_max s < target_l s ! 1 + d2 \<longrightarrow>
        target_l (on_scroll (s\<lparr>delta := d1\<rparr>) x y dx dy) ! 1 = y_max s \<and>
        target_l (on_scroll (s\<lparr>delta := d2\<rparr>) x y dx dy) ! 1 = y_max s"
    unfolding y by (simp add: clip_above)
  have c4: "0 < dy \<and> target_l s ! 1 - d1 < y_min s \<and> target_l s ! 1 - d2 < y_min s \<longrightarrow>
        target_l (on_scroll (s\<lparr>delta := d1\<rparr>) x y dx dy) ! 1 = y_min s \<and>
        target_l (on_scroll (s\<lparr>delta := d2\<rparr>) x y dx dy) ! 1 = y_min s"
    unfolding y using assms(3) by (simp add: clip_below)
  have c5: "z_max s < target_l s ! 2 + d1 \<and> z_max s < target_l s ! 2 + d2 \<longrightarrow>
        target_l (on_click (s\<lparr>delta := d1\<rparr>) x y Button_left True) ! 2 = z_max s \<and>
        target_l (on_click (s\<lparr>delta := d2\<rparr>) x y Button_left True) ! 2 = z_max s"
    unfolding zl by (simp add: clip_above)
  have c6: "target_l s ! 2 - d1 < z_min s \<and> target_l s ! 2 - d2 < z_min s \<longrightarrow>
        target_l (on_click (s\<lparr>delta := d1\<rparr>) x y Button_right True) ! 2 = z_min s \<and>
        target_l (on_click (s\<lparr>delta := d2\<rparr>) x y Button_right True) ! 2 = z_min s"
    unfolding zr using assms(4) by (simp add: clip_below)
  have c7: "0 < dx \<and> 0.037 < left_gripper_pos s + d1 \<and> 0.037 < left_gripper_pos s + d2 \<longrightarrow>
        left_gripper_pos (on_scroll (s\<lparr>delta := d1\<rparr>) x y dx dy) = 0.037 \<and>
        left_gripper_pos (on_scroll (s\<lparr>delta := d2\<rparr>) x y dx dy) = 0.037"
    unfolding g by (simp add: clip_above)
  have c8: "dx < 0 \<and> left_gripper_pos s - d1 < 0.002 \<and> left_gripper_pos s - d2 < 0.002 \<longrightarrow>
        left_gripper_pos (on_scroll (s\<lparr>delta := d1\<rparr>) x y dx dy) = 0.002 \<and>
        left_gripper_pos (on_scroll (s\<lparr>delta := d2\<rparr>) x y dx dy) = 0.002"
    unfolding g by (simp add: clip_below)
  have c9: "0 < dx \<and> 0.037 < right_gripper_pos s + d1 \<and> 0.037 < right_gripper_pos s + d2 \<longrightarrow>
        right_gripper_pos (on_scroll (s\<lparr>delta := d1\<rparr>) x y dx dy) = 0.037 \<and>
        right_gripper_pos (on_scroll (s\<lparr>delta := d2\<rparr>) x y dx dy) = 0.037"
    unfolding g by (simp add: clip_above)
  have c10: "dx < 0 \<and> right_gripper_pos s - d1 < 0.002 \<and> right_gripper_pos s - d2 < 0.002 \<longrightarrow>
        right_gripper_pos (on_scroll (s\<lparr>delta := d1\<rparr>) x y dx dy) = 0.002 \<and>
        right_gripper_pos (on_scroll (s\<lparr>delta := d2\<rparr>) x y dx dy) = 0.002"
    unfolding g by (simp add: clip_below)
  have i: "clip (clip a (x_min s) (x_max s)) (x_min s) (x_max s) = clip a (x_min s) (x_max s)"
    "clip (clip a (y_min s) (y_max s)) (y_min s) (y_max s) = clip a (y_min s) (y_max s)"
    "clip (clip a (z_min s) (z_max s)) (z_min s) (z_max s) = clip a (z_min s) (z_max s)"
    using assms(2-4) by (simp_all only: clip_clip)
  show ?thesis
    by (intro conjI) (rule c1 c2 c3 c4 c5 c6 c7 c8 c9 c10 sg i)+
qed

text \<open>From the initial target (-0.25, 0.0, 1.1) the steps 1 and 100 both overshoot every
  bound, and both end at the bound.\<close>

theorem clamp_overshoot_witness:
  "target_l (on_scroll (demo_controller\<lparr>delta := 1\<rparr>) 0 0 1 (- 1)) ! 0 = 0.4 \<and>
   target_l (on_scroll (demo_controller\<lparr>delta := 100\<rparr>) 0 0 1 (- 1)) ! 0 = 0.4 \<and>
   target_l (on_scroll (demo_controller\<lparr>delta := 1\<rparr>) 0 0 1 (- 1)) ! 1 = 0.4 \<and>
   target_l (on_scroll (demo_controller\<lparr>delta := 100\<rparr>) 0 0 1 (- 1)) ! 1 = 0.4 \<and>
   target_l (on_scroll (demo_controller\<lparr>delta := 1\<rparr>) 0 0 (- 1) 1) ! 0 = - 0.4 \<and>
   target_l (on_scroll (demo_controller\<lparr>delta := 100\<rparr>) 0 0 (- 1) 1) ! 0 = - 0.4 \<and>
   target_l (on_scroll (demo_controller\<lparr>delta := 1\<rparr>) 0 0 (- 1) 1) ! 1 = - 0.4 \<and>
   target_l (on_scroll (demo_controller\<lparr>delta := 100\<rparr>) 0 0 (- 1) 1) ! 1 = - 0.4 \<and>
   target_l (on_click (demo_controller\<lparr>delta := 1\<rparr>) 0 0 Button_left True) ! 2 = 1.4 \<and>
   target_l (on_click (demo_controller\<lparr>delta := 100\<rparr>) 0 0 Button_left True) ! 2 = 1.4 \<and>
   target_l (on_click (demo_controller\<lparr>delta := 1\<rparr>) 0 0 Button_right True) ! 2 = 0.8 \<and>
   target_l (on_click (demo_controller\<lparr>delta := 100\<rparr>) 0 0 Button_right True) ! 2 = 0.8 \<and>
   left_gripper_pos (on_scroll (demo_controller\<lparr>delta := 1\<rparr>) 0 0 1 (- 1)) = 0.037 \<and>
   right_gripper_pos (on_scroll (demo_controller\<lparr>delta := 100\<rparr>) 0 0 (- 1) 1) = 0.002"
proof -
  have s: "length (target_l demo_controller) = 3"
    "x_min demo_controller \<le> x_max demo_controller"
    "y_min demo_controller \<le> y_max demo_controller"
    "z_min demo_controller \<le> z_max demo_controller"
    by (simp_all add: demo_controller_def init_def)
  have v: "target_l demo_controller = [- 0.25, 0.0, 1.1]"
    "x_min demo_controller = - 0.4" "x_max demo_controller = 0.4"
    "y_min demo_controller = - 0.4" "y_max demo_controller = 0.4"
    "z_min demo_controller = 0.8" "z_max demo_controller = 1.4"
    "left_gripper_pos demo_controller = 0.02" "right_gripper_pos demo_controller = 0.02"
    by (simp_all add: demo_controller_def init_def)
  show ?thesis
    using clamp_overshoot_independent_of_step [OF s, of 1 1 100 0 0 "- 1" 0]
      clamp_overshoot_independent_of_step [OF s, of "- 1" 1 100 0 0 1 0]
    unfolding v by simp
qed





text \<open>
  Claim C1, as amended. When the IK solve of an inner iteration raises (after \<open>i\<close>
  iterations of the tick that succeeded, \<open>i\<close> below \<open>max_iters\<close>), \<open>run\<close> does not
  recover: the iteration, the outer tick and the \<open>while\<close> loop all end with that
  exception, in the state the solve was called in (with the call recorded). Nothing
  is substituted: neither configuration is integrated and the physics state is not
  written or stepped. In every iteration that completes, the left configuration is
  integrated with the velocity the solver returned, as returned, and the right one
  with zero velocity: the right arm keeps its position and its velocity is the zero
  vector.
\<close>

theorem solver_fault_propagates:
  "(inner_loop i ext la ra (tick_head s0) = Inr s \<and> i < max_iters \<and>
    solve_ik ext (left_configuration s) (data (self s)) [l_ee_task s] rate_dt solver limits 0.001 = Inl e \<and>
    is_running ext k \<longrightarrow>
      inner_iteration ext la ra s = Inl (e, emit Call_solve_ik s) \<and>
      outer_tick ext la ra s0 = Inl (e, emit Call_solve_ik s) \<and>
      while_loop (Suc fuel) ext la ra k s0 = Some (Inl (e, emit Call_solve_ik s)) \<and>
      left_configuration (emit Call_solve_ik s) = left_configuration s \<and>
      right_configuration (emit Call_solve_ik s) = right_configuration s \<and>
      data (self (emit Call_solve_ik s)) = data (self s)) \<and>
   (inner_iteration ext la ra t = Inr t' \<longrightarrow>
      (\<exists>v. solve_ik ext (left_configuration t) (data (self t)) [l_ee_task t] rate_dt solver limits 0.001 = Inr v \<and>
           left_configuration t' =
             \<lparr> q = map2 (\<lambda>a w. a + w * rate_dt) (q (left_configuration t)) v, dq = v \<rparr>) \<and>
      q (right_configuration t') = q (right_configuration t) \<and>
      dq (right_configuration t') = replicate (length (dq (right_configuration t))) 0)"
proof (intro conjI impI)
  assume "inner_loop i ext la ra (tick_head s0) = Inr s \<and> i < max_iters \<and>
    solve_ik ext (left_configuration s) (data (self s)) [l_ee_task s] rate_dt solver limits 0.001 = Inl e \<and>
    is_running ext k"
  then have h: "inner_loop i ext la ra (tick_head s0) = Inr s" "i < max_iters"
    "solve_ik ext (left_configuration s) (data (self s)) [l_ee_task s] rate_dt solver limits 0.001 = Inl e"
    "is_running ext k"
    by blast+
  show "inner_iteration ext la ra s = Inl (e, emit Call_solve_ik s)"
    by (rule inner_iteration_fault [OF h(3)])
  show "outer_tick ext la ra s0 = Inl (e, emit Call_solve_ik s)"
    by (rule fault_ends_tick [OF h(1-3)])
  show "while_loop (Suc fuel) ext la ra k s0 = Some (Inl (e, emit Call_solve_ik s))"
    by (rule fault_ends_while_loop [OF fault_ends_tick [OF h(1-3)] h(4)])
  show "left_configuration (emit Call_solve_ik s) = left_configuration s"
    "right_configuration (emit Call_solve_ik s) = right_configuration s"
    "data (self (emit Call_solve_ik s)) = data (self s)"
    by (simp_all add: emit_simps)
next
  assume a: "inner_iteration ext la ra t = Inr t'"
  from inner_iteration_effects [OF a]
  show "\<exists>v. solve_ik ext (left_configuration t) (data (self t)) [l_ee_task t] rate_dt solver limits 0.001 = Inr v \<and>
           left_configuration t' =
             \<lparr> q = map2 (\<lambda>a w. a + w * rate_dt) (q (left_configuration t)) v, dq = v \<rparr>"
    "q (right_configuration t') = q (right_configuration t)"
    "dq (right_configuration t') = replicate (length (dq (right_configuration t))) 0"
    by blast+
qed

text \<open>The infeasible solver in the first iteration of the first tick, and one completed
  iteration with the solver that answers.\<close>

theorem solver_fault_propagates_witness:
  "(inner_loop 0 ext_infeasible demo_left demo_right (tick_head demo_state) = Inr (tick_head demo_state) \<and>
    0 < max_iters \<and>
    solve_ik ext_infeasible (left_configuration (tick_head demo_state))
      (data (self (tick_head demo_state))) [l_ee_task (tick_head demo_state)]
      rate_dt solver limits 0.001 = Inl Solver_infeasible \<and>
    is_running ext_infeasible 0 \<and>
    while_loop (Suc 0) ext_infeasible demo_left demo_right 0 demo_state =
      Some (Inl (Solver_infeasible, emit Call_solve_ik (tick_head demo_state)))) \<and>
   (\<exists>t'. inner_iteration (ext_converged 1) demo_left demo_right demo_state = Inr t' \<and>
      q (right_configuration t') = q (right_configuration demo_state) \<and>
      dq (right_configuration t') = replicate 6 0)"
proof -
  have h: "inner_loop 0 ext_infeasible demo_left demo_right (tick_head demo_state) = Inr (tick_head demo_state)"
    "0 < max_iters"
    "solve_ik ext_infeasible (left_configuration (tick_head demo_state))
       (data (self (tick_head demo_state))) [l_ee_task (tick_head demo_state)]
       rate_dt solver limits 0.001 = Inl Solver_infeasible"
    "is_running ext_infeasible 0"
    by (simp_all add: demo_fault max_iters_def)
  have sz: "sized demo_left demo_right demo_state"
    unfolding demo_state_def by (rule demo_sized)
  from inner_iteration_succeeds [OF sz ext_converged_total, of 1] obtain t' where
    t': "inner_iteration (ext_converged 1) demo_left demo_right demo_state = Inr t'" by blast
  note a = solver_fault_propagates [where ext = ext_infeasible and la = demo_left
      and ra = demo_right and i = 0 and ?s0.0 = demo_state and s = "tick_head demo_state"
      and e = Solver_infeasible and k = 0 and fuel = 0]
  note b = solver_fault_propagates [where ext = "ext_converged 1" and la = demo_left
      and ra = demo_right and t = demo_state and t' = t']
  have p1: "while_loop (Suc 0) ext_infeasible demo_left demo_right 0 demo_state =
      Some (Inl (Solver_infeasible, emit Call_solve_ik (tick_head demo_state)))"
    using a h by blast
  have p2: "\<exists>t'. inner_iteration (ext_converged 1) demo_left demo_right demo_state = Inr t' \<and>
      q (right_configuration t') = q (right_configuration demo_state) \<and>
      dq (right_configuration t') = replicate 6 0"
    using b t' by (auto simp: demo_state_facts)
  from h p1 p2 show ?thesis by blast
qed

text \<open>
  Against claim C1 as stated: with a solver that reports infeasibility and a window
  that stays open, \<open>run\<close> has ended within five polls, with the solver's exception,
  before any physics step and with the left configuration as it was set up; the fault
  was not replaced by a zero velocity and it did end the control loop.
\<close>

theorem solver_fault_ends_run:
  "(case run 5 ext_infeasible demo_left demo_right 0 1 demo_controller of
      Some (Inl (e, s)) \<Rightarrow>
        e = Solver_infeasible \<and> count_list (trace (self s)) Mj_step = 0 \<and>
        left_configuration s = left_configuration demo_state
    | _ \<Rightarrow> False)"
proof -
  have "trace (self (tick_head demo_state)) =
      [Set_target_l (from_rotation_and_translation (rot_l demo_controller) (target_l demo_controller)),
       Set_target_r (from_rotation_and_translation (rot_r demo_controller) (target_r demo_controller))]"
    by (simp add: tick_head_simps demo_state_def run_setup_simps demo_controller_def init_def)
  moreover have "left_configuration (tick_head demo_state) = left_configuration demo_state"
    by (simp add: tick_head_def Let_def emit_def)
  ultimately show ?thesis
    using demo_run_faults [of 4] by (simp add: emit_simps)
qed

text \<open>
  The two ways \<open>run\<close> ends. When it returns because \<open>viewer.is_running()\<close> answered
  false, the mouse listener has been stopped, and stopping it is the last thing \<open>run\<close>
  did. When an exception leaves the loop, the listener is as it was at the start.
\<close>

lemma listener_stopped_on_normal_exit_only:
  "(run fuel ext la ra site_l site_r c = Some (Inr s') \<longrightarrow>
      \<not> listener_running (self s') \<and> last (trace (self s')) = Listener_stop) \<and>
   (run fuel ext la ra site_l site_r c = Some (Inl (e, s')) \<longrightarrow>
      listener_running (self s') = listener_running c)"
proof (intro conjI impI)
  assume "run fuel ext la ra site_l site_r c = Some (Inr s')"
  then have "while_loop fuel ext la ra 0 (run_setup ext la ra site_l site_r c) = Some (Inr s')"
    by (simp add: run_def)
  from while_loop_exit [OF this]
  show "\<not> listener_running (self s')" and "last (trace (self s')) = Listener_stop" by simp_all
next
  assume "run fuel ext la ra site_l site_r c = Some (Inl (e, s'))"
  then have "while_loop fuel ext la ra 0 (run_setup ext la ra site_l site_r c) = Some (Inl (e, s'))"
    by (simp add: run_def)
  from while_loop_exit [OF this]
  show "listener_running (self s') = listener_running c" by (simp add: run_setup_simps)
qed

text \<open>A window that closes at the second poll with a solver that answers, and a window
  that stays open with a solver that raises.\<close>

lemma listener_stopped_example:
  "(\<exists>s'. run 3 (ext_converged 1) demo_left demo_right 0 1 demo_controller = Some (Inr s') \<and>
      \<not> listener_running (self s') \<and> last (trace (self s')) = Listener_stop) \<and>
   (\<exists>e s'. run 3 ext_infeasible demo_left demo_right 0 1 demo_controller = Some (Inl (e, s')) \<and>
      listener_running (self s') = listener_running demo_controller)"
proof -
  have "\<exists>s'. while_loop 3 (ext_converged 1) demo_left demo_right 0
      (run_setup (ext_converged 1) demo_left demo_right 0 1 demo_controller) = Some (Inr s')"
    by (rule while_loop_returns [OF ext_converged_total demo_sized, of 1])
      (simp_all add: ext_converged_def)
  then obtain s1 where
    s1: "run 3 (ext_converged 1) demo_left demo_right 0 1 demo_controller = Some (Inr s1)"
    by (auto simp: run_def)
  have s2: "run 3 ext_infeasible demo_left demo_right 0 1 demo_controller =
      Some (Inl (Solver_infeasible, emit Call_solve_ik (tick_head demo_state)))"
    using demo_run_faults [of 2] by (simp add: numeral_3_eq_3)
  from listener_stopped_on_normal_exit_only [where fuel = 3 and ext = "ext_converged 1"
      and la = demo_left and ra = demo_right and site_l = 0 and site_r = 1
      and c = demo_controller and s' = s1]
    listener_stopped_on_normal_exit_only [where fuel = 3 and ext = ext_infeasible
      and la = demo_left and ra = demo_right and site_l = 0 and site_r = 1
      and c = demo_controller and e = Solver_infeasible
      and s' = "emit Call_solve_ik (tick_head demo_state)"]
    s1 s2
  show ?thesis by blast
qed

text \<open>
  Claim C7 asks that the mouse listener is stopped on every exit path of the control
  loop, exceptions included. The code stops it on the exit by the closed window only:
  with the solver that reports infeasibility (any exception raised in the loop takes
  the same path), \<open>run\<close> ends by the exception and the mouse listener is still
  running.
\<close>

theorem exception_leaves_listener_running:
  "(case run 5 ext_infeasible demo_left demo_right 0 1 demo_controller of
      Some (Inl (e, s)) \<Rightarrow> listener_running (self s)
    | _ \<Rightarrow> False)"
  using demo_run_faults [of 4]
  by (simp add: emit_simps tick_head_simps demo_state_def run_setup_simps demo_controller_def init_def)

end
